theory Spec2Isabelle
  imports Main
begin

section \<open>The interactive K-Means plot of the machine-learning notebook\<close>

text \<open>
  The notebook \<^verbatim>\<open>04_MachineLearning_solution.ipynb\<close> ends with the one piece of control
  logic it owns:
  \<^verbatim>\<open>
  from IPython.html.widgets import interact
  colors = sns.color_palette(n_colors=10)

  mds_pos = mds.fit(data.data).embedding_

  @interact(n_clusters=(1,10))
  def draw_plot(n_clusters):
      instance = KMeans(n_clusters=n_clusters, random_state = 102)
      clusters_assignment = instance.fit_predict(data.data)
      plt.scatter(mds_pos[:, 0], mds_pos[:, 1], s=20, c=[colors[i] for i in clusters_assignment])
  \<close>
  Everything it calls (K-Means, MDS, the palette, the plot) belongs to third-party
  libraries. The libraries are parameters of the model; the cell and \<open>draw_plot\<close> are
  translated line by line.
\<close>

subsection \<open>Data\<close>

text \<open>
  The exceptions that can leave \<open>draw_plot\<close>: the \<open>IndexError\<close> of the list index
  \<open>colors[i]\<close>, and whatever the clustering call raises, which the body does not catch.
\<close>

datatype error = IndexError | ClusteringError

text \<open>
  The arguments of one \<open>plt.scatter(x, y, s=..., c=...)\<close> call. The coordinate type \<open>'p\<close>
  and the colour type \<open>'c\<close> stay abstract: the code never inspects either.
\<close>

record ('p, 'c) scatter =
  sc_x :: "'p list"
  sc_y :: "'p list"
  sc_s :: int
  sc_c :: "'c list"

text \<open>
  The third-party routines the cell calls, as parameters. \<open>'f\<close> is the type of a
  feature value; a sample-by-feature array is a list of rows.
  \<^item> \<open>KMeans_fit_predict n_clusters random_state X\<close> is
    \<open>KMeans(n_clusters=n_clusters, random_state=random_state).fit_predict(X)\<close>: the labels,
    or \<open>None\<close> when the call raises. The estimator is built afresh with an integer seed
    at every call, so the routine is a function of these three arguments.
  \<^item> \<open>MDS_fit_embedding random_state X\<close> is
    \<open>manifold.MDS(n_components=2, random_state=random_state).fit(X).embedding_\<close>: one pair
    of coordinates per row of the result.
  \<^item> \<open>color_palette n\<close> is \<open>sns.color_palette(n_colors=n)\<close>.
\<close>

record ('f, 'p, 'c) library =
  KMeans_fit_predict :: "int \<Rightarrow> int \<Rightarrow> 'f list list \<Rightarrow> int list option"
  MDS_fit_embedding :: "int \<Rightarrow> 'f list list \<Rightarrow> ('p \<times> 'p) list"
  color_palette :: "nat \<Rightarrow> 'c list"

text \<open>
  The state the cell works on: the notebook's global variables \<open>data.data\<close>, \<open>mds_pos\<close>
  and \<open>colors\<close>, the content of the rendering surface, and a log of the calls made to
  the clustering routine (arguments \<open>n_clusters\<close>, \<open>random_state\<close>, \<open>X\<close>, oldest first).
  The log is bookkeeping of the model: it makes "the routine was called with these
  arguments" a statement about the state.
\<close>

record ('f, 'p, 'c) notebook =
  data_data :: "'f list list"
  mds_pos :: "('p \<times> 'p) list"
  colors :: "'c list"
  figure :: "('p, 'c) scatter option"
  kmeans_calls :: "(int \<times> int \<times> 'f list list) list"

subsection \<open>The operations of the cell\<close>

text \<open>
  Python's \<open>xs[i]\<close> on a list: an index from \<open>0\<close> counts from the front, a negative one
  from the end, and any other raises \<open>IndexError\<close>.
\<close>

definition py_getitem :: "'a list \<Rightarrow> int \<Rightarrow> error + 'a" where
  "py_getitem xs i =
     (if 0 \<le> i then (if i < int (length xs) then Inr (xs ! nat i) else Inl IndexError)
      else (if - int (length xs) \<le> i then Inr (xs ! nat (int (length xs) + i))
            else Inl IndexError))"

text \<open>
  The comprehension \<open>[colors[i] for i in clusters_assignment]\<close>: the labels are looked up
  from left to right and the first failing lookup raises.
\<close>

fun lookup_colors :: "'c list \<Rightarrow> int list \<Rightarrow> error + 'c list" where
  "lookup_colors cs [] = Inr []"
| "lookup_colors cs (i # is) =
     (case py_getitem cs i of
        Inl e \<Rightarrow> Inl e
      | Inr c \<Rightarrow> (case lookup_colors cs is of Inl e \<Rightarrow> Inl e | Inr r \<Rightarrow> Inr (c # r)))"

text \<open>
  Modelled from the spec: the rendering surface is matplotlib's \<open>pyplot\<close> under the
  notebook's inline backend, which is not part of the repository. The specification
  gives its contract: it "accepts a clear-and-redraw instruction with a list of
  (coordinate, color) pairs", is "assumed synchronous and always succeeds". So one
  \<open>plt.scatter\<close> call replaces what the surface shows with the points of that call.
  The call is kept as its four arguments; matplotlib's own checks of them are not part
  of the model.
\<close>

definition plt_scatter ::
  "'p list \<Rightarrow> 'p list \<Rightarrow> int \<Rightarrow> 'c list \<Rightarrow> ('p, 'c) scatter option \<Rightarrow> ('p, 'c) scatter option"
where
  "plt_scatter x y s c fig = Some \<lparr>sc_x = x, sc_y = y, sc_s = s, sc_c = c\<rparr>"

text \<open>
  The first two lines of \<open>draw_plot\<close>: a fresh estimator with the seed \<open>102\<close>, fitted on
  \<open>data.data\<close>. The result is the local variable \<open>clusters_assignment\<close>, or the exception.
\<close>

definition clusters_assignment ::
  "('f, 'p, 'c) library \<Rightarrow> int \<Rightarrow> ('f, 'p, 'c) notebook
     \<Rightarrow> (error + int list) \<times> ('f, 'p, 'c) notebook"
where
  "clusters_assignment L n_clusters w =
     ((case KMeans_fit_predict L n_clusters 102 (data_data w) of
         None \<Rightarrow> Inl ClusteringError
       | Some ls \<Rightarrow> Inr ls),
      w\<lparr>kmeans_calls := kmeans_calls w @ [(n_clusters, 102, data_data w)]\<rparr>)"

text \<open>
  \<open>draw_plot\<close>: the clustering step, then the colour of every label, then the scatter
  plot of the two columns of \<open>mds_pos\<close>. An exception leaves the function at once, with
  the state as it is at that point. The function returns nothing.
\<close>

definition draw_plot ::
  "('f, 'p, 'c) library \<Rightarrow> int \<Rightarrow> ('f, 'p, 'c) notebook
     \<Rightarrow> (error + unit) \<times> ('f, 'p, 'c) notebook"
where
  "draw_plot L n_clusters w =
     (let (r, w1) = clusters_assignment L n_clusters w in
      case r of
        Inl e \<Rightarrow> (Inl e, w1)
      | Inr ls \<Rightarrow>
          (case lookup_colors (colors w1) ls of
             Inl e \<Rightarrow> (Inl e, w1)
           | Inr c \<Rightarrow>
               (Inr (),
                w1\<lparr>figure :=
                     plt_scatter (map fst (mds_pos w1)) (map snd (mds_pos w1)) 20 c
                       (figure w1)\<rparr>)))"

text \<open>
  The widget binding \<open>@interact(n_clusters=(1,10))\<close>: a slider whose values are the
  integers from \<open>1\<close> to \<open>10\<close>.
\<close>

definition n_clusters_range :: "int \<times> int" where
  "n_clusters_range = (1, 10)"

definition slider_value :: "int \<Rightarrow> bool" where
  "slider_value k \<longleftrightarrow> fst n_clusters_range \<le> k \<and> k \<le> snd n_clusters_range"

text \<open>
  The top of the cell: the palette of ten colours and the MDS layout of the dataset
  \<open>X\<close> (the estimator \<open>mds\<close> was built with \<open>random_state=5\<close>). Nothing is drawn yet.
\<close>

definition task_cell :: "('f, 'p, 'c) library \<Rightarrow> 'f list list \<Rightarrow> ('f, 'p, 'c) notebook" where
  "task_cell L X =
     \<lparr>data_data = X,
      mds_pos = MDS_fit_embedding L 5 X,
      colors = color_palette L 10,
      figure = None,
      kmeans_calls = []\<rparr>"

text \<open>
  A session: the function is called once for every change of the parameter, in order.
  An exception ends that call only; the next change calls the function again.
\<close>

fun slider_changes ::
  "('f, 'p, 'c) library \<Rightarrow> int list \<Rightarrow> ('f, 'p, 'c) notebook \<Rightarrow> ('f, 'p, 'c) notebook"
where
  "slider_changes L [] w = w"
| "slider_changes L (k # ks) w = slider_changes L ks (snd (draw_plot L k w))"

subsection \<open>The contracts of the libraries\<close>

text \<open>
  Modelled from the spec: the clustering routine is scikit-learn's \<open>KMeans\<close>, which is
  not part of the repository. The specification describes what it returns: "given the
  sample-by-feature array and an integer cluster count, returns one integer label per
  sample", the labels being "a sequence of N integer labels (range [0, Cluster
  Parameter - 1])".
\<close>

definition clustering_contract :: "('f, 'p, 'c) library \<Rightarrow> bool" where
  "clustering_contract L \<longleftrightarrow>
     (\<forall>k seed X ls. KMeans_fit_predict L k seed X = Some ls \<longrightarrow>
        length ls = length X \<and> (\<forall>l \<in> set ls. 0 \<le> l \<and> l < k))"

text \<open>
  Modelled from the spec: the projection routine is scikit-learn's \<open>MDS\<close>, which is not
  part of the repository: "given the sample-by-feature array, returns a fixed 2D
  coordinate per sample".
\<close>

definition projection_contract :: "('f, 'p, 'c) library \<Rightarrow> bool" where
  "projection_contract L \<longleftrightarrow> (\<forall>seed X. length (MDS_fit_embedding L seed X) = length X)"

text \<open>
  Modelled from the spec: the palette provider is seaborn's \<open>color_palette\<close>, which is
  not part of the repository: it "supplies an ordered sequence of \<open>\<ge>\<close>10 distinct colors
  at initialization".
\<close>

definition palette_contract :: "('f, 'p, 'c) library \<Rightarrow> bool" where
  "palette_contract L \<longleftrightarrow> 10 \<le> length (color_palette L 10) \<and> distinct (color_palette L 10)"

subsection \<open>A small library and dataset to run the cell on\<close>

text \<open>
  A clustering routine that deals the labels \<open>0, 1, ..., k - 1, 0, 1, ...\<close> out to the
  samples in order, and raises for a cluster count below \<open>1\<close> or above the number of
  samples, as K-Means does.
\<close>

fun round_robin :: "int \<Rightarrow> int \<Rightarrow> 'a list \<Rightarrow> int list" where
  "round_robin k i [] = []"
| "round_robin k i (x # xs) = (i mod k) # round_robin k (i + 1) xs"

definition demo_kmeans :: "int \<Rightarrow> int \<Rightarrow> nat list list \<Rightarrow> int list option" where
  "demo_kmeans k seed X =
     (if k \<le> 0 \<or> int (length X) < k then None else Some (round_robin k 0 X))"

text \<open>A projection that keeps the first two features of every sample.\<close>

definition demo_mds :: "int \<Rightarrow> nat list list \<Rightarrow> (nat \<times> nat) list" where
  "demo_mds seed X = map (\<lambda>row. case row of a # b # _ \<Rightarrow> (a, b) | _ \<Rightarrow> (0, 0)) X"

text \<open>A palette of numbered colours.\<close>

definition demo_palette :: "nat \<Rightarrow> nat list" where
  "demo_palette n = map (\<lambda>i. 100 + i) [0..<n]"

definition demo_library :: "(nat, nat, nat) library" where
  "demo_library =
     \<lparr>KMeans_fit_predict = demo_kmeans, MDS_fit_embedding = demo_mds,
      color_palette = demo_palette\<rparr>"

text \<open>Twelve samples with two features each.\<close>

definition demo_data :: "nat list list" where
  "demo_data =
     [[1, 1], [1, 2], [2, 1], [2, 2], [8, 8], [8, 9], [9, 8], [9, 9],
      [1, 8], [1, 9], [2, 8], [2, 9]]"

definition demo_notebook :: "(nat, nat, nat) notebook" where
  "demo_notebook = task_cell demo_library demo_data"

section \<open>Properties\<close>

subsection \<open>The palette lookup\<close>

lemma py_getitem_in_range:
  "0 \<le> i \<Longrightarrow> i < int (length xs) \<Longrightarrow> py_getitem xs i = Inr (xs ! nat i)"
  by (simp add: py_getitem_def)

lemma py_getitem_error: "py_getitem xs i = Inl e \<Longrightarrow> e = IndexError"
  by (auto simp: py_getitem_def split: if_splits)

lemma lookup_colors_error: "lookup_colors cs ls = Inl e \<Longrightarrow> e = IndexError"
proof (induction ls)
  case Nil
  then show ?case by simp
next
  case (Cons i ls)
  then show ?case
    by (auto split: sum.splits dest: py_getitem_error)
qed

lemma lookup_colors_length: "lookup_colors cs ls = Inr r \<Longrightarrow> length r = length ls"
proof (induction ls arbitrary: r)
  case Nil
  then show ?case by simp
next
  case (Cons i ls)
  then show ?case by (auto split: sum.splits)
qed

lemma lookup_colors_nth:
  "lookup_colors cs ls = Inr r \<Longrightarrow> j < length ls \<Longrightarrow> py_getitem cs (ls ! j) = Inr (r ! j)"
proof (induction ls arbitrary: r j)
  case Nil
  then show ?case by simp
next
  case (Cons i ls)
  then show ?case by (cases j) (auto split: sum.splits)
qed

lemma lookup_colors_in_range:
  "\<forall>l \<in> set ls. 0 \<le> l \<and> l < int (length cs) \<Longrightarrow>
   lookup_colors cs ls = Inr (map (\<lambda>l. cs ! nat l) ls)"
  by (induction ls) (simp_all add: py_getitem_in_range)

subsection \<open>What one call changes\<close>

lemma clusters_assignment_fst:
  "fst (clusters_assignment L k w) =
     (case KMeans_fit_predict L k 102 (data_data w) of
        None \<Rightarrow> Inl ClusteringError
      | Some ls \<Rightarrow> Inr ls)"
  by (simp add: clusters_assignment_def)

lemma draw_plot_calls:
  "kmeans_calls (snd (draw_plot L k w)) = kmeans_calls w @ [(k, 102, data_data w)]"
  by (simp add: draw_plot_def clusters_assignment_def split: option.splits sum.splits)

lemma draw_plot_data: "data_data (snd (draw_plot L k w)) = data_data w"
  by (simp add: draw_plot_def clusters_assignment_def split: option.splits sum.splits)

lemma draw_plot_pos: "mds_pos (snd (draw_plot L k w)) = mds_pos w"
  by (simp add: draw_plot_def clusters_assignment_def split: option.splits sum.splits)

lemma draw_plot_colors: "colors (snd (draw_plot L k w)) = colors w"
  by (simp add: draw_plot_def clusters_assignment_def split: option.splits sum.splits)

lemma draw_plot_fst:
  "fst (draw_plot L k w) =
     (case KMeans_fit_predict L k 102 (data_data w) of
        None \<Rightarrow> Inl ClusteringError
      | Some ls \<Rightarrow>
          (case lookup_colors (colors w) ls of Inl e \<Rightarrow> Inl e | Inr c \<Rightarrow> Inr ()))"
  by (simp add: draw_plot_def clusters_assignment_def split: option.splits sum.splits)

lemma draw_plot_failure_figure:
  "fst (draw_plot L k w) = Inl e \<Longrightarrow> figure (snd (draw_plot L k w)) = figure w"
  by (auto simp: draw_plot_def clusters_assignment_def split: option.splits sum.splits)


subsection \<open>What a session keeps\<close>

lemma slider_changes_data: "data_data (slider_changes L ks w) = data_data w"
  by (induction ks arbitrary: w) (simp_all add: draw_plot_data)

lemma slider_changes_pos: "mds_pos (slider_changes L ks w) = mds_pos w"
  by (induction ks arbitrary: w) (simp_all add: draw_plot_pos)

lemma slider_changes_colors: "colors (slider_changes L ks w) = colors w"
  by (induction ks arbitrary: w) (simp_all add: draw_plot_colors)

lemma slider_value_iff: "slider_value k \<longleftrightarrow> 1 \<le> k \<and> k \<le> 10"
  by (simp add: slider_value_def n_clusters_range_def)

subsection \<open>What the clustering contract gives the function\<close>

lemma clusters_assignment_contract:
  assumes "clustering_contract L" and "fst (clusters_assignment L k w) = Inr ls"
  shows "length ls = length (data_data w)" and "\<forall>l \<in> set ls. 0 \<le> l \<and> l < k"
proof -
  from assms(2) have "KMeans_fit_predict L k 102 (data_data w) = Some ls"
    by (simp add: clusters_assignment_fst split: option.splits)
  with assms(1) show "length ls = length (data_data w)" and "\<forall>l \<in> set ls. 0 \<le> l \<and> l < k"
    unfolding clustering_contract_def by blast+
qed

subsection \<open>The small library meets the contracts\<close>

lemma round_robin_length: "length (round_robin k i xs) = length xs"
  by (induction xs arbitrary: i) simp_all

lemma round_robin_range: "0 < k \<Longrightarrow> l \<in> set (round_robin k i xs) \<Longrightarrow> 0 \<le> l \<and> l < k"
  by (induction xs arbitrary: i) auto

lemma demo_clustering_contract: "clustering_contract demo_library"
  unfolding clustering_contract_def
proof (intro allI impI)
  fix k seed :: int and X :: "nat list list" and ls
  assume "KMeans_fit_predict demo_library k seed X = Some ls"
  then have k: "0 < k" and ls: "ls = round_robin k 0 X"
    by (auto simp: demo_library_def demo_kmeans_def split: if_splits)
  show "length ls = length X \<and> (\<forall>l\<in>set ls. 0 \<le> l \<and> l < k)"
    using round_robin_range [OF k] by (auto simp: ls round_robin_length)
qed

lemma demo_projection_contract: "projection_contract demo_library"
  by (simp add: projection_contract_def demo_library_def demo_mds_def)

lemma demo_palette_contract: "palette_contract demo_library"
  by (simp add: palette_contract_def demo_library_def demo_palette_def distinct_map inj_on_def)

lemmas demo_defs =
  demo_notebook_def task_cell_def demo_library_def demo_kmeans_def demo_mds_def
  demo_data_def demo_palette_def py_getitem_def upt_rec

subsection \<open>No validation inside the function\<close>

text \<open>
  Claim C10. \<open>draw_plot\<close> does not validate its argument. Whatever integer \<open>n\<close> it is
  given, it calls the clustering routine with exactly that \<open>n\<close> (the seed \<open>102\<close>, the
  array \<open>data.data\<close>), and it fails only when that call or the palette lookup fails.
  The limits \<open>1\<close> and \<open>10\<close> stand in the slider range given to \<open>interact\<close> alone.
\<close>

theorem draw_plot_forwards_any_n_clusters:
  "kmeans_calls (snd (draw_plot L n w)) = kmeans_calls w @ [(n, 102, data_data w)]
   \<and> fst (draw_plot L n w) =
       (case KMeans_fit_predict L n 102 (data_data w) of
          None \<Rightarrow> Inl ClusteringError
        | Some ls \<Rightarrow>
            (case lookup_colors (colors w) ls of Inl e \<Rightarrow> Inl e | Inr c \<Rightarrow> Inr ()))
   \<and> n_clusters_range = (1, 10)"
  by (simp add: draw_plot_calls draw_plot_fst n_clusters_range_def)

text \<open>
  With twelve clusters, a value no slider position gives, the clustering routine is
  still called, and the call ends in the \<open>IndexError\<close> of the palette.
\<close>

theorem draw_plot_forwards_any_n_clusters_witness:
  "\<not> slider_value 12
   \<and> kmeans_calls (snd (draw_plot demo_library 12 demo_notebook)) = [(12, 102, demo_data)]
   \<and> fst (draw_plot demo_library 12 demo_notebook) = Inl IndexError"
  using draw_plot_forwards_any_n_clusters [of demo_library 12 demo_notebook]
  by (simp add: slider_value_def n_clusters_range_def demo_defs)

subsection \<open>A cluster count outside the slider range\<close>

text \<open>
  The specification has a call with \<open>k\<close> outside \<open>[1,10]\<close> fail with an
  \<open>OutOfRangeParameter\<close> condition before any clustering. The function has no such
  check. With eleven clusters on the twelve samples the clustering routine runs and
  returns its labels, the label \<open>10\<close> among them, and the call then ends in the
  \<open>IndexError\<close> of \<open>colors[10]\<close>.
\<close>

theorem out_of_range_reaches_clustering:
  "\<not> slider_value 11
   \<and> fst (clusters_assignment demo_library 11 demo_notebook)
       = Inr [0, 1, 2, 3, 4, 5, 6, 7, 8, 9, 10, 0]
   \<and> draw_plot demo_library 11 demo_notebook
       = (Inl IndexError, demo_notebook\<lparr>kmeans_calls := [(11, 102, demo_data)]\<rparr>)"
  by (simp add: slider_value_def n_clusters_range_def draw_plot_def clusters_assignment_def
      demo_defs)

text \<open>
  Claim C1, as amended. \<open>draw_plot\<close> makes no range check: for every integer \<open>k\<close>, in
  the range or not, it calls the clustering routine with \<open>k\<close>. A call can fail in two
  ways only, by an exception of the clustering routine or by the \<open>IndexError\<close> of the
  palette lookup, and a call that fails draws nothing: the surface shows what it showed
  before.
\<close>

theorem draw_plot_no_range_check:
  "kmeans_calls (snd (draw_plot L k w)) = kmeans_calls w @ [(k, 102, data_data w)]
   \<and> (\<forall>e. fst (draw_plot L k w) = Inl e \<longrightarrow>
         figure (snd (draw_plot L k w)) = figure w
         \<and> (e = ClusteringError \<and> KMeans_fit_predict L k 102 (data_data w) = None
            \<or> e = IndexError
              \<and> (\<exists>ls. KMeans_fit_predict L k 102 (data_data w) = Some ls
                      \<and> lookup_colors (colors w) ls = Inl IndexError)))"
proof (intro conjI allI impI)
  show "kmeans_calls (snd (draw_plot L k w)) = kmeans_calls w @ [(k, 102, data_data w)]"
    by (rule draw_plot_calls)
next
  fix e
  assume "fst (draw_plot L k w) = Inl e"
  then show "figure (snd (draw_plot L k w)) = figure w"
    by (rule draw_plot_failure_figure)
next
  fix e
  assume "fst (draw_plot L k w) = Inl e"
  then show "e = ClusteringError \<and> KMeans_fit_predict L k 102 (data_data w) = None
        \<or> e = IndexError
          \<and> (\<exists>ls. KMeans_fit_predict L k 102 (data_data w) = Some ls
                  \<and> lookup_colors (colors w) ls = Inl IndexError)"
    by (auto simp: draw_plot_fst split: option.splits sum.splits dest: lookup_colors_error)
qed

theorem draw_plot_no_range_check_witness:
  "\<not> slider_value 0
   \<and> fst (draw_plot demo_library 0 demo_notebook) = Inl ClusteringError
   \<and> kmeans_calls (snd (draw_plot demo_library 0 demo_notebook)) = [(0, 102, demo_data)]
   \<and> figure (snd (draw_plot demo_library 0 demo_notebook)) = figure demo_notebook"
proof -
  have f: "fst (draw_plot demo_library 0 demo_notebook) = Inl ClusteringError"
    by (simp add: draw_plot_fst demo_defs)
  have n: "\<not> slider_value 0"
    by (simp add: slider_value_def n_clusters_range_def)
  have c: "kmeans_calls demo_notebook = []" and d: "data_data demo_notebook = demo_data"
    by (simp_all add: demo_notebook_def task_cell_def)
  show ?thesis
    using draw_plot_no_range_check [of demo_library 0 demo_notebook] f n c d by simp
qed

subsection \<open>What a call leaves alone\<close>

text \<open>
  Claim C8. A call of \<open>draw_plot\<close>, with whatever argument and whether it succeeds or
  fails, leaves the sample-by-feature array and the point layout as they were. Of the
  state it changes the rendering surface and nothing else (the log of clustering calls
  is the model's own); its result carries no value. The same holds for a whole session.
\<close>

theorem draw_plot_frame:
  "data_data (snd (draw_plot L k w)) = data_data w
   \<and> mds_pos (snd (draw_plot L k w)) = mds_pos w
   \<and> snd (draw_plot L k w)
       = w\<lparr>figure := figure (snd (draw_plot L k w)),
            kmeans_calls := kmeans_calls w @ [(k, 102, data_data w)]\<rparr>
   \<and> data_data (slider_changes L ks w) = data_data w
   \<and> mds_pos (slider_changes L ks w) = mds_pos w"
  by (simp add: draw_plot_data draw_plot_pos slider_changes_data slider_changes_pos)
    (simp add: draw_plot_def clusters_assignment_def split: option.splits sum.splits)

theorem draw_plot_frame_witness:
  "data_data (snd (draw_plot demo_library 4 demo_notebook)) = demo_data
   \<and> mds_pos (snd (draw_plot demo_library 4 demo_notebook))
       = [(1, 1), (1, 2), (2, 1), (2, 2), (8, 8), (8, 9), (9, 8), (9, 9),
          (1, 8), (1, 9), (2, 8), (2, 9)]
   \<and> data_data (slider_changes demo_library [4, 0, 11, 2] demo_notebook) = demo_data"
  using draw_plot_frame [of demo_library 4 demo_notebook "[4, 0, 11, 2]"]
  by (simp add: demo_notebook_def task_cell_def demo_library_def demo_mds_def demo_data_def)

subsection \<open>Determinism and independence of the history\<close>

text \<open>
  Claim C4. Two calls of \<open>draw_plot\<close> in succession with the same cluster count compute
  the same cluster assignment and end the same way: both clustering calls get the same
  count, the same seed \<open>102\<close> (whatever the count) and the same array.
\<close>

theorem draw_plot_twice_same_assignment:
  "fst (clusters_assignment L k (snd (draw_plot L k w))) = fst (clusters_assignment L k w)
   \<and> fst (draw_plot L k (snd (draw_plot L k w))) = fst (draw_plot L k w)
   \<and> kmeans_calls (snd (draw_plot L k (snd (draw_plot L k w))))
       = kmeans_calls w @ [(k, 102, data_data w), (k, 102, data_data w)]"
  by (simp add: clusters_assignment_fst draw_plot_fst draw_plot_calls draw_plot_data
      draw_plot_colors cong: option.case_cong)

theorem draw_plot_twice_same_assignment_witness:
  "fst (clusters_assignment demo_library 3 (snd (draw_plot demo_library 3 demo_notebook)))
     = Inr [0, 1, 2, 0, 1, 2, 0, 1, 2, 0, 1, 2]
   \<and> fst (clusters_assignment demo_library 3 demo_notebook)
     = Inr [0, 1, 2, 0, 1, 2, 0, 1, 2, 0, 1, 2]"
  using draw_plot_twice_same_assignment [of demo_library 3 demo_notebook]
  by (simp add: clusters_assignment_fst demo_defs)

text \<open>
  Claim C9. The estimator is built anew inside every call and kept nowhere, so the
  cluster assignment of a call depends on the cluster count and the dataset only: after
  any sequence of earlier parameter changes it is what it would be with none.
\<close>

theorem draw_plot_history_independent:
  "fst (clusters_assignment L k (slider_changes L ks w)) = fst (clusters_assignment L k w)
   \<and> fst (clusters_assignment L k (slider_changes L ks w))
       = (case KMeans_fit_predict L k 102 (data_data w) of
            None \<Rightarrow> Inl ClusteringError
          | Some ls \<Rightarrow> Inr ls)"
  by (simp add: clusters_assignment_fst slider_changes_data)

theorem draw_plot_history_independent_witness:
  "fst (clusters_assignment demo_library 2
          (slider_changes demo_library [7, 11, 0, 3] demo_notebook))
     = Inr [0, 1, 0, 1, 0, 1, 0, 1, 0, 1, 0, 1]
   \<and> fst (clusters_assignment demo_library 2 demo_notebook)
     = Inr [0, 1, 0, 1, 0, 1, 0, 1, 0, 1, 0, 1]"
  using draw_plot_history_independent [of demo_library 2 "[7, 11, 0, 3]" demo_notebook]
  by (simp add: clusters_assignment_fst demo_defs)


subsection \<open>Recompute and redraw\<close>

text \<open>
  Claim C6. For a cluster count \<open>k\<close> of the slider, \<open>draw_plot\<close> calls the clustering
  routine with \<open>k\<close> on the sample-by-feature array \<open>data.data\<close> (not on the layout
  \<open>mds_pos\<close>). When the routine returns the labels \<open>ls\<close> and every label indexes the
  palette, the call succeeds and the surface then shows exactly one scatter plot,
  whatever it showed before: the points are the rows of \<open>mds_pos\<close> in order, and the
  colour of the \<open>i\<close>-th point is \<open>colors[ls[i]]\<close>.
\<close>

theorem draw_plot_clusters_and_redraws:
  assumes "slider_value k"
    and "KMeans_fit_predict L k 102 (data_data w) = Some ls"
    and "\<forall>l \<in> set ls. 0 \<le> l \<and> l < int (length (colors w))"
  shows "fst (clusters_assignment L k w) = Inr ls
     \<and> draw_plot L k w =
        (Inr (),
         w\<lparr>kmeans_calls := kmeans_calls w @ [(k, 102, data_data w)],
           figure := Some \<lparr>sc_x = map fst (mds_pos w), sc_y = map snd (mds_pos w),
                            sc_s = 20, sc_c = map (\<lambda>l. colors w ! nat l) ls\<rparr>\<rparr>)"
  using assms(2) lookup_colors_in_range [OF assms(3)]
  by (simp add: draw_plot_def clusters_assignment_def plt_scatter_def)

theorem draw_plot_clusters_and_redraws_witness:
  "slider_value 3
   \<and> KMeans_fit_predict demo_library 3 102 (data_data demo_notebook)
       = Some [0, 1, 2, 0, 1, 2, 0, 1, 2, 0, 1, 2]
   \<and> draw_plot demo_library 3 demo_notebook =
       (Inr (),
        demo_notebook
          \<lparr>kmeans_calls := [(3, 102, demo_data)],
           figure := Some \<lparr>sc_x = [1, 1, 2, 2, 8, 8, 9, 9, 1, 1, 2, 2],
                            sc_y = [1, 2, 1, 2, 8, 9, 8, 9, 8, 9, 8, 9],
                            sc_s = 20,
                            sc_c = [100, 101, 102, 100, 101, 102, 100, 101, 102,
                                    100, 101, 102]\<rparr>\<rparr>)"
proof -
  have s: "slider_value 3"
    by (simp add: slider_value_iff)
  have l: "KMeans_fit_predict demo_library 3 102 (data_data demo_notebook)
             = Some [0, 1, 2, 0, 1, 2, 0, 1, 2, 0, 1, 2]"
    by (simp add: demo_defs)
  have r: "\<forall>l \<in> set [0, 1, 2, 0, 1, 2, 0, 1, 2, 0, 1, 2].
             0 \<le> l \<and> l < int (length (colors demo_notebook))"
    by (simp add: demo_defs)
  show ?thesis
    using draw_plot_clusters_and_redraws [OF s l r] s l by (simp add: demo_defs)
qed

subsection \<open>The cluster assignment, under the contract of the clustering routine\<close>

text \<open>
  Claim C2. Let the clustering routine meet its contract. Then for a cluster count \<open>k\<close>
  of the slider every label of the assignment that the clustering step of \<open>draw_plot\<close>
  returns is at least \<open>0\<close> and below \<open>k\<close>; since \<open>k\<close> is at most \<open>10\<close>, no label is \<open>10\<close>.
\<close>

theorem assignment_labels_below_k:
  assumes "clustering_contract L" and "slider_value k"
    and "fst (clusters_assignment L k w) = Inr ls"
  shows "(\<forall>l \<in> set ls. 0 \<le> l \<and> l < k) \<and> 10 \<notin> set ls"
  using clusters_assignment_contract(2) [OF assms(1,3)] assms(2)
  by (auto simp: slider_value_iff)

theorem assignment_labels_below_k_witness:
  "clustering_contract demo_library \<and> slider_value 10
   \<and> fst (clusters_assignment demo_library 10 demo_notebook)
       = Inr [0, 1, 2, 3, 4, 5, 6, 7, 8, 9, 0, 1]
   \<and> set [0, 1, 2, 3, 4, 5, 6, 7, 8, 9, 0, 1] \<subseteq> {0..<(10::int)}
   \<and> (10::int) \<notin> set [0, 1, 2, 3, 4, 5, 6, 7, 8, 9, 0, 1]"
proof -
  have s: "slider_value 10"
    by (simp add: slider_value_iff)
  have l: "fst (clusters_assignment demo_library 10 demo_notebook)
             = Inr [0, 1, 2, 3, 4, 5, 6, 7, 8, 9, 0, 1]"
    by (simp add: clusters_assignment_fst demo_defs)
  show ?thesis
    using assignment_labels_below_k [OF demo_clustering_contract s l]
      demo_clustering_contract s l
    by simp
qed

text \<open>
  Claim C3. Let the clustering and the projection routine meet their contracts, and
  take the state of the cell after any sequence of parameter changes. For a cluster
  count \<open>k\<close> of the slider, the assignment that the clustering step returns has one
  label per sample: its length is the number of samples of the dataset, which is also
  the length of the point layout.
\<close>

theorem assignment_one_label_per_sample:
  assumes "clustering_contract L" and "projection_contract L" and "slider_value k"
    and "fst (clusters_assignment L k (slider_changes L ks (task_cell L X))) = Inr ls"
  shows "length ls = length X
     \<and> length (data_data (slider_changes L ks (task_cell L X))) = length X
     \<and> length (mds_pos (slider_changes L ks (task_cell L X))) = length X"
proof -
  have d: "data_data (slider_changes L ks (task_cell L X)) = X"
    by (simp add: slider_changes_data task_cell_def)
  have p: "mds_pos (slider_changes L ks (task_cell L X)) = MDS_fit_embedding L 5 X"
    by (simp add: slider_changes_pos task_cell_def)
  have "length (MDS_fit_embedding L 5 X) = length X"
    using assms(2) by (simp add: projection_contract_def)
  then show ?thesis
    using clusters_assignment_contract(1) [OF assms(1,4)] by (simp add: d p)
qed

theorem assignment_one_label_per_sample_witness:
  "clustering_contract demo_library \<and> projection_contract demo_library \<and> slider_value 4
   \<and> fst (clusters_assignment demo_library 4
            (slider_changes demo_library [5, 2] (task_cell demo_library demo_data)))
       = Inr [0, 1, 2, 3, 0, 1, 2, 3, 0, 1, 2, 3]
   \<and> length [0, 1, 2, 3, 0, 1, 2, 3, 0, 1, 2, 3 :: int] = length demo_data
   \<and> length (mds_pos (slider_changes demo_library [5, 2] (task_cell demo_library demo_data)))
       = length demo_data
   \<and> length demo_data = 12"
proof -
  have s: "slider_value 4"
    by (simp add: slider_value_iff)
  have l: "fst (clusters_assignment demo_library 4
                 (slider_changes demo_library [5, 2] (task_cell demo_library demo_data)))
             = Inr [0, 1, 2, 3, 0, 1, 2, 3, 0, 1, 2, 3]"
    by (simp only: clusters_assignment_fst slider_changes_data) (simp add: demo_defs)
  have n: "length demo_data = 12"
    by (simp add: demo_data_def)
  show ?thesis
    using assignment_one_label_per_sample
      [OF demo_clustering_contract demo_projection_contract s l]
      demo_clustering_contract demo_projection_contract s l n
    by (simp del: slider_changes.simps)
qed

text \<open>
  Claim C5. Let the clustering routine meet its contract. With the cluster count \<open>1\<close>
  the assignment that the clustering step returns is a list of zeros, one per sample.
\<close>

theorem single_cluster_all_zeros:
  assumes "clustering_contract L" and "fst (clusters_assignment L 1 w) = Inr ls"
  shows "ls = replicate (length (data_data w)) 0"
proof -
  have "\<forall>l \<in> set ls. l = 0"
    using clusters_assignment_contract(2) [OF assms] by auto
  then have "ls = replicate (length ls) 0"
    by (simp add: replicate_length_same)
  then show ?thesis
    using clusters_assignment_contract(1) [OF assms] by simp
qed

theorem single_cluster_all_zeros_witness:
  "clustering_contract demo_library
   \<and> fst (clusters_assignment demo_library 1 demo_notebook)
       = Inr (replicate (length (data_data demo_notebook)) 0)
   \<and> replicate (length (data_data demo_notebook)) (0::int)
       = [0, 0, 0, 0, 0, 0, 0, 0, 0, 0, 0, 0]"
proof -
  have l: "fst (clusters_assignment demo_library 1 demo_notebook)
             = Inr [0, 0, 0, 0, 0, 0, 0, 0, 0, 0, 0, 0]"
    by (simp add: clusters_assignment_fst demo_defs)
  have r: "replicate (length (data_data demo_notebook)) (0::int)
             = [0, 0, 0, 0, 0, 0, 0, 0, 0, 0, 0, 0]"
    by (simp add: demo_defs eval_nat_numeral)
  show ?thesis
    using single_cluster_all_zeros [OF demo_clustering_contract l] demo_clustering_contract l r
    by simp
qed

subsection \<open>The palette\<close>

text \<open>
  Claim C7. Let the palette provider and the clustering routine meet their contracts,
  and take the state \<open>W ks X\<close> of the cell after any sequence \<open>ks\<close> of parameter changes
  on the dataset \<open>X\<close>. The palette is still the one the cell asked for at the start,
  whatever the changes were: at least ten colours, all distinct. For a cluster count
  \<open>k\<close> of the slider every label of the assignment is an index into the palette, each
  lookup \<open>colors[l]\<close> returns the colour at that index, and the call of \<open>draw_plot\<close>
  does not end in an \<open>IndexError\<close>.
\<close>

theorem palette_lookup_in_bounds:
  fixes L :: "('f, 'p, 'c) library"
  defines "W ks X \<equiv> slider_changes L ks (task_cell L X)"
  assumes "clustering_contract L" and "palette_contract L" and "slider_value k"
  shows "colors (W ks X) = color_palette L 10
     \<and> 10 \<le> length (colors (W ks X))
     \<and> distinct (colors (W ks X))
     \<and> (\<forall>ls. fst (clusters_assignment L k (W ks X)) = Inr ls \<longrightarrow>
           (\<forall>l \<in> set ls. 0 \<le> l \<and> l < int (length (colors (W ks X))))
           \<and> lookup_colors (colors (W ks X)) ls
               = Inr (map (\<lambda>l. colors (W ks X) ! nat l) ls))
     \<and> fst (draw_plot L k (W ks X)) \<noteq> Inl IndexError"
proof -
  have c: "colors (W ks X) = color_palette L 10"
    by (simp add: W_def slider_changes_colors task_cell_def)
  have n: "10 \<le> length (colors (W ks X))" and d: "distinct (colors (W ks X))"
    using assms(3) by (simp_all add: c palette_contract_def)
  have r: "\<forall>l \<in> set ls. 0 \<le> l \<and> l < int (length (colors (W ks X)))"
    if "fst (clusters_assignment L k (W ks X)) = Inr ls" for ls
    using clusters_assignment_contract(2) [OF assms(2) that] assms(4) n
    by (auto simp: slider_value_iff)
  have ok: "lookup_colors (colors (W ks X)) ls = Inr (map (\<lambda>l. colors (W ks X) ! nat l) ls)"
    if "fst (clusters_assignment L k (W ks X)) = Inr ls" for ls
    using lookup_colors_in_range [OF r [OF that]] .
  have "fst (draw_plot L k (W ks X)) \<noteq> Inl IndexError"
  proof (cases "KMeans_fit_predict L k 102 (data_data (W ks X))")
    case None
    then show ?thesis by (simp add: draw_plot_fst)
  next
    case (Some ls)
    then have "fst (clusters_assignment L k (W ks X)) = Inr ls"
      by (simp add: clusters_assignment_fst)
    from ok [OF this] Some show ?thesis by (simp add: draw_plot_fst)
  qed
  with c n d r ok show ?thesis by blast
qed

theorem palette_lookup_in_bounds_witness:
  "clustering_contract demo_library \<and> palette_contract demo_library \<and> slider_value 10
   \<and> colors (slider_changes demo_library [3, 11] (task_cell demo_library demo_data))
       = [100, 101, 102, 103, 104, 105, 106, 107, 108, 109]
   \<and> fst (clusters_assignment demo_library 10
            (slider_changes demo_library [3, 11] (task_cell demo_library demo_data)))
       = Inr [0, 1, 2, 3, 4, 5, 6, 7, 8, 9, 0, 1]
   \<and> lookup_colors [100, 101, 102, 103, 104, 105, 106, 107, 108, 109 :: nat]
         [0, 1, 2, 3, 4, 5, 6, 7, 8, 9, 0, 1]
       = Inr [100, 101, 102, 103, 104, 105, 106, 107, 108, 109, 100, 101]
   \<and> fst (draw_plot demo_library 10
            (slider_changes demo_library [3, 11] (task_cell demo_library demo_data)))
       \<noteq> Inl IndexError"
proof -
  have s: "slider_value 10"
    by (simp add: slider_value_iff)
  have p: "color_palette demo_library 10
             = [100, 101, 102, 103, 104, 105, 106, 107, 108, 109]"
    by (simp add: demo_defs)
  have l: "fst (clusters_assignment demo_library 10
                 (slider_changes demo_library [3, 11] (task_cell demo_library demo_data)))
             = Inr [0, 1, 2, 3, 4, 5, 6, 7, 8, 9, 0, 1]"
    by (simp only: clusters_assignment_fst slider_changes_data) (simp add: demo_defs)
  have m: "map (\<lambda>l. [100, 101, 102, 103, 104, 105, 106, 107, 108, 109 :: nat] ! nat l)
             [0, 1, 2, 3, 4, 5, 6, 7, 8, 9, 0, 1]
           = [100, 101, 102, 103, 104, 105, 106, 107, 108, 109, 100, 101]"
    by simp
  note t = palette_lookup_in_bounds
    [OF demo_clustering_contract demo_palette_contract s, of "[3, 11]" demo_data]
  from t p
  have c: "colors (slider_changes demo_library [3, 11] (task_cell demo_library demo_data))
             = [100, 101, 102, 103, 104, 105, 106, 107, 108, 109]"
    by (simp del: slider_changes.simps)
  from t l
  have "lookup_colors
          (colors (slider_changes demo_library [3, 11] (task_cell demo_library demo_data)))
          [0, 1, 2, 3, 4, 5, 6, 7, 8, 9, 0, 1]
        = Inr (map (\<lambda>l. colors (slider_changes demo_library [3, 11]
                                   (task_cell demo_library demo_data)) ! nat l)
                 [0, 1, 2, 3, 4, 5, 6, 7, 8, 9, 0, 1])"
    by blast
  then have k: "lookup_colors [100, 101, 102, 103, 104, 105, 106, 107, 108, 109 :: nat]
                  [0, 1, 2, 3, 4, 5, 6, 7, 8, 9, 0, 1]
                = Inr [100, 101, 102, 103, 104, 105, 106, 107, 108, 109, 100, 101]"
    by (simp only: c m)
  from t
  have f: "fst (draw_plot demo_library 10
                  (slider_changes demo_library [3, 11] (task_cell demo_library demo_data)))
             \<noteq> Inl IndexError"
    by blast
  from demo_clustering_contract demo_palette_contract s c l k f show ?thesis
    by blast
qed

end
